theory Spec2Isabelle
  imports Main "HOL-Library.AList" "HOL-Library.Word"
begin

text \<open>
  A shallow embedding of the ws4sqlite client for Go: the request builder, the response
  structs and the client's \<open>SendWithContext\<close>. The sources hold two versions of the
  builder and of the client; the model follows the later one (crypto fields
  \<^verbatim>\<open>Password\<close> and \<^verbatim>\<open>Fields\<close>, \<open>Send\<close> returning the status code).
\<close>

section \<open>The request model and its builder\<close>

text \<open>
  A Go map \<^verbatim>\<open>map[string]T\<close> is modelled by the list of its entries; the key order
  of such a list is the order in which a \<^verbatim>\<open>range\<close> statement happens to visit
  the map. A nil map or slice is \<open>None\<close>, a non-nil one is \<open>Some\<close> (the slices
  \<^verbatim>\<open>Transaction\<close> and \<^verbatim>\<open>Results\<close>, which the code only appends to and ranges
  over, are plain lists). The type variable \<open>'a\<close> stands for Go's \<^verbatim>\<open>interface{}\<close>.
  \<open>Password_c\<close> is the field \<^verbatim>\<open>Password\<close> of \<^verbatim>\<open>requestItemCrypto\<close>.
\<close>

type_synonym 'a gomap = "(string \<times> 'a) list"

record credentials =
  User :: string
  Password :: string

record requestItemCrypto =
  Password_c :: string
  Fields :: "string list"
  CompressionLevel :: int

record 'a requestItem =
  Query :: string
  Statement :: string
  NoFail :: bool
  Values :: "'a gomap option"
  ValuesBatch :: "'a gomap list option"
  Encoder :: "requestItemCrypto option"
  Decoder :: "requestItemCrypto option"

record 'a request =
  Credentials :: "credentials option"
  Transaction :: "'a requestItem list"

text \<open>
  The builder: \<open>err\<close> is the latched error (empty when none), \<open>list_rb\<close> the Go
  field \<^verbatim>\<open>list\<close>, \<open>temp\<close> the pointer to the item being configured (\<open>None\<close>
  is the nil pointer).
\<close>

record 'a RequestBuilder =
  err :: string
  list_rb :: "'a request"
  temp :: "'a requestItem option"

record 'a Request =
  req :: "'a request"

text \<open>A method that dereferences the nil \<open>temp\<close> pointer panics.\<close>

datatype panic = NilPointerDereference

text \<open>The zero value \<^verbatim>\<open>requestItem{}\<close>.\<close>

definition requestItem_zero :: "'a requestItem" where
  "requestItem_zero =
     \<lparr>Query = '''', Statement = '''', NoFail = False, Values = None, ValuesBatch = None,
      Encoder = None, Decoder = None\<rparr>"

definition NewRequestBuilder :: "'a RequestBuilder" where
  "NewRequestBuilder =
     \<lparr>err = '''', list_rb = \<lparr>Credentials = None, Transaction = []\<rparr>, temp = None\<rparr>"

text \<open>
  \<^verbatim>\<open>rb.list.Transaction = append(rb.list.Transaction, *rb.temp)\<close>, done by
  \<open>AddQuery\<close> and \<open>AddStatement\<close> when an item is open.
\<close>

definition flush_temp :: "'a RequestBuilder \<Rightarrow> 'a request" where
  "flush_temp rb =
     (case temp rb of
        None \<Rightarrow> list_rb rb
      | Some t \<Rightarrow> (list_rb rb)\<lparr>Transaction := Transaction (list_rb rb) @ [t]\<rparr>)"

definition AddQuery :: "string \<Rightarrow> 'a RequestBuilder \<Rightarrow> 'a RequestBuilder" where
  "AddQuery query rb =
     (if err rb \<noteq> '''' then rb
      else rb\<lparr>list_rb := flush_temp rb, temp := Some (requestItem_zero\<lparr>Query := query\<rparr>)\<rparr>)"

definition AddStatement :: "string \<Rightarrow> 'a RequestBuilder \<Rightarrow> 'a RequestBuilder" where
  "AddStatement statement rb =
     (if err rb \<noteq> '''' then rb
      else rb\<lparr>list_rb := flush_temp rb,
              temp := Some (requestItem_zero\<lparr>Statement := statement\<rparr>)\<rparr>)"

definition WithNoFail :: "'a RequestBuilder \<Rightarrow> panic + 'a RequestBuilder" where
  "WithNoFail rb =
     (if err rb \<noteq> '''' then Inr rb
      else case temp rb of
        None \<Rightarrow> Inl NilPointerDereference
      | Some t \<Rightarrow> Inr (rb\<lparr>temp := Some (t\<lparr>NoFail := True\<rparr>)\<rparr>))"

definition WithValues :: "'a gomap option \<Rightarrow> 'a RequestBuilder \<Rightarrow> panic + 'a RequestBuilder" where
  "WithValues values rb =
     (if err rb \<noteq> '''' then Inr rb
      else case values of
        None \<Rightarrow> Inr (rb\<lparr>err := ''cannot specify a nil argument''\<rparr>)
      | Some v \<Rightarrow>
          (case temp rb of
             None \<Rightarrow> Inl NilPointerDereference
           | Some t \<Rightarrow>
               if Query t \<noteq> '''' \<and> (Values t \<noteq> None \<or> ValuesBatch t \<noteq> None)
               then Inr (rb\<lparr>err := ''cannot specify a batch for a query''\<rparr>)
               else (case ValuesBatch t of
                       Some b \<Rightarrow> Inr (rb\<lparr>temp := Some (t\<lparr>ValuesBatch := Some (b @ [v])\<rparr>)\<rparr>)
                     | None \<Rightarrow>
                         (case Values t of
                            Some v0 \<Rightarrow>
                              Inr (rb\<lparr>temp :=
                                     Some (t\<lparr>ValuesBatch := Some [v0, v], Values := None\<rparr>)\<rparr>)
                          | None \<Rightarrow> Inr (rb\<lparr>temp := Some (t\<lparr>Values := Some v\<rparr>)\<rparr>)))))"

definition WithEncoderAndCompression ::
    "string \<Rightarrow> int \<Rightarrow> string list \<Rightarrow> 'a RequestBuilder \<Rightarrow> panic + 'a RequestBuilder" where
  "WithEncoderAndCompression password compressionLevel fields' rb =
     (if err rb \<noteq> '''' then Inr rb
      else if compressionLevel < 1 \<or> compressionLevel > 19
      then Inr (rb\<lparr>err := ''compressionLevel must be between 1 and 19''\<rparr>)
      else if length fields' \<le> 0
      then Inr (rb\<lparr>err := ''cannot specify an empty fields list''\<rparr>)
      else case temp rb of
        None \<Rightarrow> Inl NilPointerDereference
      | Some t \<Rightarrow>
          if Query t \<noteq> ''''
          then Inr (rb\<lparr>err := ''cannot specify an encoder for a query''\<rparr>)
          else Inr (rb\<lparr>temp := Some (t\<lparr>Encoder :=
                 Some \<lparr>Password_c = password, Fields = fields',
                       CompressionLevel = compressionLevel\<rparr>\<rparr>)\<rparr>))"

text \<open>\<open>WithEncoder\<close> leaves \<^verbatim>\<open>CompressionLevel\<close> at its zero value.\<close>

definition WithEncoder ::
    "string \<Rightarrow> string list \<Rightarrow> 'a RequestBuilder \<Rightarrow> panic + 'a RequestBuilder" where
  "WithEncoder password fields' rb =
     (if err rb \<noteq> '''' then Inr rb
      else if length fields' \<le> 0
      then Inr (rb\<lparr>err := ''cannot specify an empty fields list''\<rparr>)
      else case temp rb of
        None \<Rightarrow> Inl NilPointerDereference
      | Some t \<Rightarrow>
          if Query t \<noteq> ''''
          then Inr (rb\<lparr>err := ''cannot specify an encoder for a query''\<rparr>)
          else Inr (rb\<lparr>temp := Some (t\<lparr>Encoder :=
                 Some \<lparr>Password_c = password, Fields = fields', CompressionLevel = 0\<rparr>\<rparr>)\<rparr>))"

definition WithDecoder ::
    "string \<Rightarrow> string list \<Rightarrow> 'a RequestBuilder \<Rightarrow> panic + 'a RequestBuilder" where
  "WithDecoder password fields' rb =
     (if err rb \<noteq> '''' then Inr rb
      else if length fields' \<le> 0
      then Inr (rb\<lparr>err := ''cannot specify an empty fields list''\<rparr>)
      else case temp rb of
        None \<Rightarrow> Inl NilPointerDereference
      | Some t \<Rightarrow>
          if Statement t \<noteq> ''''
          then Inr (rb\<lparr>err := ''cannot specify a decoder for a statement''\<rparr>)
          else Inr (rb\<lparr>temp := Some (t\<lparr>Decoder :=
                 Some \<lparr>Password_c = password, Fields = fields', CompressionLevel = 0\<rparr>\<rparr>)\<rparr>))"

text \<open>
  \<open>Build\<close> returns the error message or the Request, and the builder as the call
  leaves it: it overwrites \<open>err\<close> when no item was ever opened, and appends the open
  item to the builder's own list on success.
\<close>

definition Build :: "'a RequestBuilder \<Rightarrow> (string + 'a Request) \<times> 'a RequestBuilder" where
  "Build rb =
     (case temp rb of
        None \<Rightarrow>
          (let rb1 = rb\<lparr>err := ''There are no requests''\<rparr> in (Inl (err rb1), rb1))
      | Some t \<Rightarrow>
          if err rb \<noteq> '''' then (Inl (err rb), rb)
          else (let rb1 = rb\<lparr>list_rb := flush_temp rb\<rparr>
                in (Inr \<lparr>req = list_rb rb1\<rparr>, rb1)))"

text \<open>
  A chain of builder calls, \<^verbatim>\<open>NewRequestBuilder().AddQuery(..).WithValues(..)...\<close>:
  each call is applied to the builder the previous one returned; a panic ends the chain.
\<close>

datatype 'a call =
    CallAddQuery string
  | CallAddStatement string
  | CallWithNoFail
  | CallWithValues "'a gomap option"
  | CallWithEncoderAndCompression string int "string list"
  | CallWithEncoder string "string list"
  | CallWithDecoder string "string list"

fun invoke :: "'a call \<Rightarrow> 'a RequestBuilder \<Rightarrow> panic + 'a RequestBuilder" where
  "invoke (CallAddQuery q) rb = Inr (AddQuery q rb)"
| "invoke (CallAddStatement s) rb = Inr (AddStatement s rb)"
| "invoke CallWithNoFail rb = WithNoFail rb"
| "invoke (CallWithValues v) rb = WithValues v rb"
| "invoke (CallWithEncoderAndCompression p l fs) rb = WithEncoderAndCompression p l fs rb"
| "invoke (CallWithEncoder p fs) rb = WithEncoder p fs rb"
| "invoke (CallWithDecoder p fs) rb = WithDecoder p fs rb"

fun chain :: "'a call list \<Rightarrow> 'a RequestBuilder \<Rightarrow> panic + 'a RequestBuilder" where
  "chain [] rb = Inr rb"
| "chain (c # cs) rb = (case invoke c rb of Inl p \<Rightarrow> Inl p | Inr rb' \<Rightarrow> chain cs rb')"

text \<open>
  What \<^verbatim>\<open>encoding/json\<close> emits for a \<open>requestItem\<close>, read off the struct tags:
  the fields in declaration order under their JSON names, every one of them
  \<^verbatim>\<open>omitempty\<close> (an empty string, \<open>false\<close>, a nil pointer and a nil or empty map or
  slice are left out).
\<close>

datatype 'a jfield =
    JString string
  | JBool bool
  | JMap "'a gomap"
  | JMaps "'a gomap list"
  | JCrypto requestItemCrypto

definition requestItem_json :: "'a requestItem \<Rightarrow> (string \<times> 'a jfield) list" where
  "requestItem_json t =
     (if Query t \<noteq> '''' then [(''query'', JString (Query t))] else []) @
     (if Statement t \<noteq> '''' then [(''statement'', JString (Statement t))] else []) @
     (if NoFail t then [(''noFail'', JBool True)] else []) @
     (case Values t of
        None \<Rightarrow> []
      | Some v \<Rightarrow> if length v = 0 then [] else [(''values'', JMap v)]) @
     (case ValuesBatch t of
        None \<Rightarrow> []
      | Some b \<Rightarrow> if length b = 0 then [] else [(''valuesBatch'', JMaps b)]) @
     (case Encoder t of None \<Rightarrow> [] | Some e \<Rightarrow> [(''encoder'', JCrypto e)]) @
     (case Decoder t of None \<Rightarrow> [] | Some d \<Rightarrow> [(''decoder'', JCrypto d)])"

text \<open>The SQL text of an item, and of the call that opens one, as the pair (query, statement).\<close>

definition item_text :: "'a requestItem \<Rightarrow> string \<times> string" where
  "item_text t = (Query t, Statement t)"

fun opens_item :: "'a call \<Rightarrow> bool" where
  "opens_item (CallAddQuery q) = True"
| "opens_item (CallAddStatement s) = True"
| "opens_item c = False"

fun call_text :: "'a call \<Rightarrow> string \<times> string" where
  "call_text (CallAddQuery q) = (q, '''')"
| "call_text (CallAddStatement s) = ('''', s)"
| "call_text c = ('''', '''')"

section \<open>The response model\<close>

text \<open>
  The structs \<^verbatim>\<open>responseItem\<close> (as unmarshalled from the wire) and
  \<^verbatim>\<open>ResponseItem\<close> (as handed to the caller) have the same fields and differ in the
  type of a row only: \<^verbatim>\<open>map[string]json.RawMessage\<close> against
  \<^verbatim>\<open>map[string]interface{}\<close>. One record, with the row type as its parameter, models
  both. \<^verbatim>\<open>*int64\<close> is an optional 64-bit word.
\<close>

record 'row ResponseItem =
  Success :: bool
  RowsUpdated :: "64 word option"
  RowsUpdatedBatch :: "64 word list option"
  ResultSet :: "'row list option"
  Error :: string

record 'row Response =
  Results :: "'row ResponseItem list"

type_synonym responseItem = "string gomap ResponseItem"

type_synonym response = "string gomap Response"

text \<open>
  The number of outcome fields of an item that are populated (a non-empty error, a non-nil
  row count, a non-nil batch of row counts, a non-nil result set).
\<close>

definition populated :: "'row ResponseItem \<Rightarrow> nat" where
  "populated it =
     (if Error it \<noteq> '''' then 1 else 0) + (if RowsUpdated it \<noteq> None then 1 else 0) +
     (if RowsUpdatedBatch it \<noteq> None then 1 else 0) + (if ResultSet it \<noteq> None then 1 else 0)"

section \<open>The client\<close>

text \<open>
  \<open>SendWithContext\<close> uses the fields \<^verbatim>\<open>RequestIdx\<close>, \<^verbatim>\<open>Msg\<close> and
  \<^verbatim>\<open>Code\<close> of \<open>WsError\<close>; \<^verbatim>\<open>Code\<close> is tagged as left out of the JSON.
\<close>

record WsError =
  RequestIdx :: int
  Msg :: string
  Code :: int

definition WsError_zero :: WsError where
  "WsError_zero = \<lparr>RequestIdx = 0, Msg = '''', Code = 0\<rparr>"

text \<open>A Go \<^verbatim>\<open>error\<close> value: a \<open>WsError\<close>, or any other ("naked") error with its message.\<close>

datatype error = Naked string | Remote WsError

type_synonym AuthMode = string

definition AUTH_MODE_HTTP :: AuthMode where
  "AUTH_MODE_HTTP = ''HTTP''"

definition AUTH_MODE_INLINE :: AuthMode where
  "AUTH_MODE_INLINE = ''INLINE''"

definition AUTH_MODE_NONE :: AuthMode where
  "AUTH_MODE_NONE = ''NONE''"

record ClientBuilder =
  url :: string
  authMode :: AuthMode
  user :: string
  password :: string

text \<open>\<^verbatim>\<open>type Client struct { ClientBuilder }\<close>: a Client is the builder's frozen copy.\<close>

type_synonym Client = ClientBuilder

definition NewClientBuilder :: ClientBuilder where
  "NewClientBuilder = \<lparr>url = '''', authMode = AUTH_MODE_NONE, user = '''', password = ''''\<rparr>"

definition WithURL :: "string \<Rightarrow> ClientBuilder \<Rightarrow> ClientBuilder" where
  "WithURL u cb = cb\<lparr>url := u\<rparr>"

definition WithInlineAuth :: "string \<Rightarrow> string \<Rightarrow> ClientBuilder \<Rightarrow> ClientBuilder" where
  "WithInlineAuth u p cb = cb\<lparr>authMode := AUTH_MODE_INLINE, user := u, password := p\<rparr>"

definition WithHTTPAuth :: "string \<Rightarrow> string \<Rightarrow> ClientBuilder \<Rightarrow> ClientBuilder" where
  "WithHTTPAuth u p cb = cb\<lparr>authMode := AUTH_MODE_HTTP, user := u, password := p\<rparr>"

definition ClientBuilder_Build :: "ClientBuilder \<Rightarrow> string + Client" where
  "ClientBuilder_Build cb =
     (if url cb = '''' then Inl ''no url specified''
      else if authMode cb \<noteq> AUTH_MODE_HTTP \<and> authMode cb \<noteq> AUTH_MODE_NONE
              \<and> authMode cb \<noteq> AUTH_MODE_INLINE
      then Inl ''invalid authMode''
      else if authMode cb \<noteq> AUTH_MODE_NONE \<and> (user cb = '''' \<or> password cb = '''')
      then Inl ''no user or password specified''
      else Inr cb)"

text \<open>
  The outgoing HTTP request and the incoming response. \<open>BasicAuth\<close> is what
  \<^verbatim>\<open>SetBasicAuth\<close> stores; \<open>Body\<close> of a response is what \<^verbatim>\<open>io.ReadAll\<close> makes
  of the body stream: a read error or the bytes.
\<close>

record 'x http_Request =
  Ctx :: 'x
  Method :: string
  URL :: string
  Payload :: string
  BasicAuth :: "(string \<times> string) option"
  Header :: "(string \<times> string) list"

record http_Response =
  StatusCode :: int
  Body :: "string + string"

text \<open>
  The library functions \<open>SendWithContext\<close> calls are parameters of the model: each
  returns its error (\<open>Inl\<close>) or its value. \<^verbatim>\<open>json.Unmarshal(body, &wserr)\<close> returns
  its error, if any, together with the struct as it left it.
\<close>

record ('a, 'x) env =
  context_Background :: 'x
  json_Marshal :: "'a request \<Rightarrow> string + string"
  http_NewRequestWithContext :: "'x \<Rightarrow> string \<Rightarrow> string \<Rightarrow> string \<Rightarrow> string + 'x http_Request"
  client_Do :: "'x http_Request \<Rightarrow> string + http_Response"
  json_Unmarshal_WsError :: "string \<Rightarrow> WsError \<Rightarrow> string option \<times> WsError"
  json_Unmarshal_response :: "string \<Rightarrow> string + response"
  json_Unmarshal_value :: "string \<Rightarrow> string + 'a"

text \<open>The first statement of \<open>SendWithContext\<close>: it assigns through the pointer \<^verbatim>\<open>req\<close>.\<close>

definition attachCredentials :: "Client \<Rightarrow> 'a Request \<Rightarrow> 'a Request" where
  "attachCredentials c r =
     (if authMode c = AUTH_MODE_INLINE
      then r\<lparr>req := (req r)\<lparr>Credentials := Some \<lparr>User = user c, Password = password c\<rparr>\<rparr>\<rparr>
      else r)"

text \<open>
  From \<^verbatim>\<open>json.Marshal\<close> to \<^verbatim>\<open>io.ReadAll\<close>: the status code returned with an
  error (\<open>Inl\<close>), or the status code and the body of the response (\<open>Inr\<close>).
\<close>

definition roundTrip ::
    "('a, 'x) env \<Rightarrow> 'x \<Rightarrow> Client \<Rightarrow> 'a request \<Rightarrow> (int \<times> string) + (int \<times> string)" where
  "roundTrip E ctx c rq =
     (case json_Marshal E rq of
        Inl e \<Rightarrow> Inl (0, e)
      | Inr jsonData \<Rightarrow>
          (case http_NewRequestWithContext E ctx ''POST'' (url c) jsonData of
             Inl e \<Rightarrow> Inl (0, e)
           | Inr post \<Rightarrow>
               (let post1 = (if authMode c = AUTH_MODE_HTTP
                             then post\<lparr>BasicAuth := Some (user c, password c)\<rparr> else post);
                    post2 = post1\<lparr>Header := Header post1 @ [(''Content-Type'', ''application/json'')]\<rparr>
                in case client_Do E post2 of
                     Inl e \<Rightarrow> Inl (0, e)
                   | Inr resp \<Rightarrow>
                       (case Body resp of
                          Inl e \<Rightarrow> Inl (StatusCode resp, e)
                        | Inr body \<Rightarrow> Inr (StatusCode resp, body)))))"

text \<open>The branch for a status other than 200.\<close>

definition remoteError :: "('a, 'x) env \<Rightarrow> int \<Rightarrow> string \<Rightarrow> WsError" where
  "remoteError E code body =
     (case json_Unmarshal_WsError E body WsError_zero of
        (e, wserr) \<Rightarrow>
          (let wserr1 = (if e \<noteq> None then wserr\<lparr>RequestIdx := - 1, Msg := body\<rparr> else wserr)
           in wserr1\<lparr>Code := code\<rparr>))"

text \<open>
  The three nested loops of the 200 branch, innermost first; the last argument of each is
  the value under construction (\<^verbatim>\<open>Rirsi\<close>, \<^verbatim>\<open>Rirs\<close>, \<^verbatim>\<open>Res.Results\<close>).
\<close>

fun decode_row :: "('a, 'x) env \<Rightarrow> string gomap \<Rightarrow> 'a gomap \<Rightarrow> string + 'a gomap" where
  "decode_row E [] Rirsi = Inr Rirsi"
| "decode_row E ((k, v) # kvs) Rirsi =
     (case json_Unmarshal_value E v of
        Inl e \<Rightarrow> Inl e
      | Inr v2 \<Rightarrow> decode_row E kvs (AList.update k v2 Rirsi))"

fun decode_rows ::
    "('a, 'x) env \<Rightarrow> string gomap list \<Rightarrow> 'a gomap list \<Rightarrow> string + 'a gomap list" where
  "decode_rows E [] Rirs = Inr Rirs"
| "decode_rows E (row # rows) Rirs =
     (case decode_row E row [] of
        Inl e \<Rightarrow> Inl e
      | Inr Rirsi \<Rightarrow> decode_rows E rows (Rirs @ [Rirsi]))"

fun decode_items ::
    "('a, 'x) env \<Rightarrow> responseItem list \<Rightarrow> 'a gomap ResponseItem list
       \<Rightarrow> string + 'a gomap ResponseItem list" where
  "decode_items E [] Res = Inr Res"
| "decode_items E (r # rs) Res =
     (let Ri = \<lparr>Success = Success r, RowsUpdated = RowsUpdated r,
                RowsUpdatedBatch = RowsUpdatedBatch r, ResultSet = None, Error = Error r\<rparr>
      in case ResultSet r of
           None \<Rightarrow> decode_items E rs (Res @ [Ri])
         | Some rows \<Rightarrow>
             (case decode_rows E rows [] of
                Inl e \<Rightarrow> Inl e
              | Inr Rirs \<Rightarrow> decode_items E rs (Res @ [Ri\<lparr>ResultSet := Some Rirs\<rparr>])))"

text \<open>
  The rest of \<open>SendWithContext\<close>, from \<^verbatim>\<open>json.Marshal(req.req)\<close> on: the three
  results, as a function of the \<open>request\<close> struct that is marshalled.
\<close>

definition exchange ::
    "('a, 'x) env \<Rightarrow> 'x \<Rightarrow> Client \<Rightarrow> 'a request
       \<Rightarrow> 'a gomap Response option \<times> int \<times> error option" where
  "exchange E ctx c rq =
     (case roundTrip E ctx c rq of
        Inl (code, e) \<Rightarrow> (None, code, Some (Naked e))
      | Inr (code, body) \<Rightarrow>
          if code \<noteq> 200 then (None, code, Some (Remote (remoteError E code body)))
          else (case json_Unmarshal_response E body of
                  Inl e \<Rightarrow> (None, code, Some (Naked e))
                | Inr res \<Rightarrow>
                    (case decode_items E (Results res) [] of
                       Inl e \<Rightarrow> (None, code, Some (Naked e))
                     | Inr items \<Rightarrow> (Some \<lparr>Results = items\<rparr>, code, None))))"

text \<open>
  \<open>SendWithContext\<close> returns its three results and the Request as the call leaves it
  (the caller's Request, reached through the pointer).
\<close>

definition SendWithContext ::
    "('a, 'x) env \<Rightarrow> 'x \<Rightarrow> Client \<Rightarrow> 'a Request
       \<Rightarrow> ('a gomap Response option \<times> int \<times> error option) \<times> 'a Request" where
  "SendWithContext E ctx c r =
     (let r1 = attachCredentials c r in (exchange E ctx c (req r1), r1))"

definition Send ::
    "('a, 'x) env \<Rightarrow> Client \<Rightarrow> 'a Request
       \<Rightarrow> ('a gomap Response option \<times> int \<times> error option) \<times> 'a Request" where
  "Send E c r = SendWithContext E (context_Background E) c r"

text \<open>Every cell of every result set of a wire response unmarshals.\<close>

definition cells_decode :: "('a, 'x) env \<Rightarrow> responseItem list \<Rightarrow> bool" where
  "cells_decode E rs =
     list_all (\<lambda>r. case ResultSet r of
                      None \<Rightarrow> True
                    | Some rows \<Rightarrow>
                        list_all (list_all (\<lambda>(k, v). \<not> isl (json_Unmarshal_value E v))) rows)
       rs"

text \<open>A decoded item carries what its wire item carries.\<close>

definition copied :: "responseItem \<Rightarrow> 'a gomap ResponseItem \<Rightarrow> bool" where
  "copied w d =
     (Success d = Success w \<and> Error d = Error w \<and> RowsUpdated d = RowsUpdated w
      \<and> RowsUpdatedBatch d = RowsUpdatedBatch w
      \<and> map_option length (ResultSet d) = map_option length (ResultSet w))"

subsection \<open>A canned remote, for evaluating the client at concrete inputs\<close>

text \<open>
  The remote answers every request with the given status and body; the body unmarshals as
  given; the cells \<open>1\<close> and \<open>2\<close> unmarshal to these numbers, any other cell is malformed.
\<close>

definition canned ::
    "int \<Rightarrow> string \<Rightarrow> string option \<times> WsError \<Rightarrow> string + response \<Rightarrow> (int, unit) env" where
  "canned status body as_error as_response =
     \<lparr>context_Background = (),
      json_Marshal = (\<lambda>rq. Inr ''{}''),
      http_NewRequestWithContext =
        (\<lambda>ctx m u b. Inr \<lparr>Ctx = ctx, Method = m, URL = u, Payload = b, BasicAuth = None,
                          Header = []\<rparr>),
      client_Do = (\<lambda>post. Inr \<lparr>StatusCode = status, Body = Inr body\<rparr>),
      json_Unmarshal_WsError = (\<lambda>b w. as_error),
      json_Unmarshal_response = (\<lambda>b. as_response),
      json_Unmarshal_value =
        (\<lambda>raw. if raw = ''1'' then Inr 1 else if raw = ''2'' then Inr 2
                else Inl ''invalid character'')\<rparr>"

subsection \<open>Call chains used as concrete inputs\<close>

text \<open>The chain of the README and of the tests, with every bound value written as text.\<close>

definition readme_calls :: "string call list" where
  "readme_calls =
     [CallAddQuery ''SELECT * FROM TEMP'',
      CallAddQuery ''SELECT * FROM TEMP WHERE ID = :id'',
      CallWithValues (Some [(''id'', ''1'')]),
      CallAddStatement ''INSERT INTO TEMP (ID, VAL) VALUES (0, 0)'',
      CallAddStatement ''INSERT INTO TEMP (ID, VAL) VALUES (:id, :val)'',
      CallWithNoFail,
      CallWithValues (Some [(''id'', ''1''), (''val'', ''a'')]),
      CallAddStatement ''#Q2'',
      CallWithValues (Some [(''id'', ''2''), (''val'', ''b'')]),
      CallWithValues (Some [(''id'', ''3''), (''val'', ''c'')])]"

section \<open>The request builder: latching, bindings, encoders\<close>

lemmas builder_defs = AddQuery_def AddStatement_def WithNoFail_def WithValues_def
  WithEncoderAndCompression_def WithEncoder_def WithDecoder_def flush_temp_def
  NewRequestBuilder_def requestItem_zero_def Build_def

text \<open>Once an error is latched, every configuring call returns the builder as it is.\<close>

lemma latched_invoke: "err rb \<noteq> '''' \<Longrightarrow> invoke c rb = Inr rb"
  by (cases c) (simp_all add: AddQuery_def AddStatement_def WithNoFail_def WithValues_def
      WithEncoderAndCompression_def WithEncoder_def WithDecoder_def)

lemma latched_chain: "err rb \<noteq> '''' \<Longrightarrow> chain cs rb = Inr rb"
  by (induction cs) (simp_all add: latched_invoke)

text \<open>
  Claim C2 (no builder call panics; every failure is returned by \<open>Build\<close>). The code
  panics: on a builder to which no item was added yet, \<open>WithNoFail\<close>, \<open>WithValues\<close>
  with a non-nil mapping, and the encoder and decoder calls with valid arguments write
  through the nil \<open>temp\<close> pointer, and the chain never reaches \<open>Build\<close>.
\<close>

theorem WithNoFail_before_any_item_panics:
  "chain [CallWithNoFail] (NewRequestBuilder :: int RequestBuilder)
     = Inl NilPointerDereference
   \<and> chain [CallWithValues (Some [(''id'', 1)])] (NewRequestBuilder :: int RequestBuilder)
     = Inl NilPointerDereference
   \<and> chain [CallWithEncoderAndCompression ''pw'' 1 [''VAL'']]
       (NewRequestBuilder :: int RequestBuilder)
     = Inl NilPointerDereference
   \<and> chain [CallWithEncoder ''pw'' [''VAL'']] (NewRequestBuilder :: int RequestBuilder)
     = Inl NilPointerDereference
   \<and> chain [CallWithDecoder ''pw'' [''VAL'']] (NewRequestBuilder :: int RequestBuilder)
     = Inl NilPointerDereference"
  by (simp add: WithNoFail_def WithValues_def WithEncoderAndCompression_def WithEncoder_def
      WithDecoder_def NewRequestBuilder_def)

text \<open>
  Claim C4 (the first latched error is the one \<open>Build\<close> returns). \<open>WithValues\<close> with a
  nil mapping on a fresh builder latches its error, and \<open>Build\<close> then overwrites it: with
  no item open it assigns \<open>err\<close> before it looks at it, and returns the new message.
\<close>

theorem Build_overwrites_latched_error:
  "chain [CallWithValues None] (NewRequestBuilder :: int RequestBuilder)
     = Inr (NewRequestBuilder\<lparr>err := ''cannot specify a nil argument''\<rparr>)
   \<and> fst (Build (NewRequestBuilder\<lparr>err := ''cannot specify a nil argument''\<rparr>
                  :: int RequestBuilder))
     = Inl ''There are no requests''
   \<and> err (snd (Build (NewRequestBuilder\<lparr>err := ''cannot specify a nil argument''\<rparr>
                       :: int RequestBuilder)))
     = ''There are no requests''"
  by (simp add: WithValues_def NewRequestBuilder_def Build_def)

subsection \<open>Bindings\<close>

lemma WithValues_append_batch:
  assumes "err rb = ''''" "temp rb = Some t" "Query t = ''''" "ValuesBatch t = Some b"
  shows "chain (map (\<lambda>m. CallWithValues (Some m)) ms) rb =
           Inr (rb\<lparr>temp := Some (t\<lparr>ValuesBatch := Some (b @ ms)\<rparr>)\<rparr>)"
  using assms
proof (induction ms arbitrary: rb t b)
  case Nil
  then show ?case by simp
next
  case (Cons m ms)
  let ?t1 = "t\<lparr>ValuesBatch := Some (b @ [m])\<rparr>"
  let ?rb1 = "rb\<lparr>temp := Some ?t1\<rparr>"
  have first: "WithValues (Some m) rb = Inr ?rb1"
    using Cons.prems by (simp add: WithValues_def)
  have "chain (map (\<lambda>m. CallWithValues (Some m)) ms) ?rb1 =
          Inr (?rb1\<lparr>temp := Some (?t1\<lparr>ValuesBatch := Some ((b @ [m]) @ ms)\<rparr>)\<rparr>)"
    by (rule Cons.IH) (use Cons.prems in simp_all)
  with first show ?case by simp
qed

lemma WithValues_statement_batch:
  assumes "err rb = ''''" "temp rb = Some t" "Values t = None" "ValuesBatch t = None"
    and "Query t = ''''"
  shows "chain (map (\<lambda>m. CallWithValues (Some m)) (m1 # m2 # ms)) rb =
           Inr (rb\<lparr>temp := Some (t\<lparr>Values := None, ValuesBatch := Some (m1 # m2 # ms)\<rparr>)\<rparr>)"
proof -
  let ?rb1 = "rb\<lparr>temp := Some (t\<lparr>Values := Some m1\<rparr>)\<rparr>"
  let ?t2 = "t\<lparr>Values := None, ValuesBatch := Some [m1, m2]\<rparr>"
  let ?rb2 = "rb\<lparr>temp := Some ?t2\<rparr>"
  have s1: "WithValues (Some m1) rb = Inr ?rb1"
    using assms by (simp add: WithValues_def)
  have s2: "WithValues (Some m2) ?rb1 = Inr ?rb2"
    using assms by (simp add: WithValues_def)
  have "chain (map (\<lambda>m. CallWithValues (Some m)) ms) ?rb2 =
          Inr (?rb2\<lparr>temp := Some (?t2\<lparr>ValuesBatch := Some ([m1, m2] @ ms)\<rparr>)\<rparr>)"
    by (rule WithValues_append_batch) (use assms in simp_all)
  with s1 s2 show ?thesis by simp
qed

lemma WithValues_query_second_fails:
  assumes "err rb = ''''" "temp rb = Some t" "Values t = None" "ValuesBatch t = None"
    and "Query t \<noteq> ''''"
  shows "chain (map (\<lambda>m. CallWithValues (Some m)) (m1 # m2 # ms)) rb =
           Inr (rb\<lparr>err := ''cannot specify a batch for a query'',
                   temp := Some (t\<lparr>Values := Some m1\<rparr>)\<rparr>)"
proof -
  let ?rb1 = "rb\<lparr>temp := Some (t\<lparr>Values := Some m1\<rparr>)\<rparr>"
  let ?rb2 = "?rb1\<lparr>err := ''cannot specify a batch for a query''\<rparr>"
  have s1: "WithValues (Some m1) rb = Inr ?rb1"
    using assms by (simp add: WithValues_def)
  have s2: "WithValues (Some m2) ?rb1 = Inr ?rb2"
    using assms by (simp add: WithValues_def)
  have "chain (map (\<lambda>m. CallWithValues (Some m)) ms) ?rb2 = Inr ?rb2"
    by (rule latched_chain) simp
  with s1 s2 show ?thesis by simp
qed

lemma two_or_more: "2 \<le> length ms \<Longrightarrow> \<exists>a b rest. ms = a # b # rest"
  by (cases ms; cases "tl ms") auto

text \<open>
  Claim C6. On an open item with no binding yet (and no latched error), the first
  \<open>WithValues\<close> with a non-nil mapping fills the \<open>Values\<close> slot. On a statement, two
  calls leave the batch of both mappings in call order and \<open>Values\<close> nil, and \<open>k \<ge> 2\<close>
  calls leave the batch of all \<open>k\<close> mappings in call order. On any item, whenever
  \<open>k \<ge> 2\<close> calls have all succeeded (no error is latched after them), the batch is the
  \<open>k\<close> mappings in call order, \<open>Values\<close> is nil and the list of finished items is
  untouched. (On a query the second call is the one that fails: claim C7.)
\<close>

theorem WithValues_promotes_to_batch:
  assumes "err rb = ''''" "temp rb = Some t" "Values t = None" "ValuesBatch t = None"
  shows "WithValues (Some m) rb = Inr (rb\<lparr>temp := Some (t\<lparr>Values := Some m\<rparr>)\<rparr>)
    \<and> (Query t = '''' \<longrightarrow>
         chain [CallWithValues (Some m1), CallWithValues (Some m2)] rb =
           Inr (rb\<lparr>temp := Some (t\<lparr>Values := None, ValuesBatch := Some [m1, m2]\<rparr>)\<rparr>))
    \<and> (Query t = '''' \<and> 2 \<le> length ms \<longrightarrow>
         chain (map (\<lambda>m. CallWithValues (Some m)) ms) rb =
           Inr (rb\<lparr>temp := Some (t\<lparr>Values := None, ValuesBatch := Some ms\<rparr>)\<rparr>))
    \<and> (\<forall>rb'. 2 \<le> length ms
           \<and> chain (map (\<lambda>m. CallWithValues (Some m)) ms) rb = Inr rb' \<and> err rb' = '''' \<longrightarrow>
         temp rb' = Some (t\<lparr>Values := None, ValuesBatch := Some ms\<rparr>)
           \<and> list_rb rb' = list_rb rb)"
proof -
  have one: "WithValues (Some m) rb = Inr (rb\<lparr>temp := Some (t\<lparr>Values := Some m\<rparr>)\<rparr>)"
    using assms by (simp add: WithValues_def)
  have two: "chain [CallWithValues (Some m1), CallWithValues (Some m2)] rb =
           Inr (rb\<lparr>temp := Some (t\<lparr>Values := None, ValuesBatch := Some [m1, m2]\<rparr>)\<rparr>)"
    if "Query t = ''''"
    using WithValues_statement_batch [OF assms that, of m1 m2 "[]"] by simp
  have many: "chain (map (\<lambda>m. CallWithValues (Some m)) ms) rb =
           Inr (rb\<lparr>temp := Some (t\<lparr>Values := None, ValuesBatch := Some ms\<rparr>)\<rparr>)"
    if "Query t = ''''" "2 \<le> length ms"
  proof -
    from two_or_more [OF that(2)] obtain a b rest where ms: "ms = a # b # rest"
      by blast
    show ?thesis
      unfolding ms by (rule WithValues_statement_batch [OF assms that(1)])
  qed
  have only: "temp rb' = Some (t\<lparr>Values := None, ValuesBatch := Some ms\<rparr>)
                \<and> list_rb rb' = list_rb rb"
    if "2 \<le> length ms" "chain (map (\<lambda>m. CallWithValues (Some m)) ms) rb = Inr rb'"
      "err rb' = ''''"
    for rb'
  proof (cases "Query t = ''''")
    case True
    from many [OF True that(1)] that(2) show ?thesis by auto
  next
    case False
    from two_or_more [OF that(1)] obtain a b rest where ms: "ms = a # b # rest"
      by blast
    from WithValues_query_second_fails [OF assms False, of a b rest] that(2,3)
    show ?thesis unfolding ms by auto
  qed
  from one two many only show ?thesis by blast
qed

theorem WithValues_promotes_to_batch_witness:
  "err (AddStatement ''INSERT INTO TEMP (ID, VAL) VALUES (:id, :val)''
         (NewRequestBuilder :: string RequestBuilder)) = ''''
   \<and> temp (AddStatement ''INSERT INTO TEMP (ID, VAL) VALUES (:id, :val)''
         (NewRequestBuilder :: string RequestBuilder))
       = Some (requestItem_zero\<lparr>Statement := ''INSERT INTO TEMP (ID, VAL) VALUES (:id, :val)''\<rparr>)
   \<and> chain [CallWithValues (Some [(''id'', ''2''), (''val'', ''b'')]),
            CallWithValues (Some [(''id'', ''3''), (''val'', ''c'')]),
            CallWithValues (Some [(''id'', ''4''), (''val'', ''d'')])]
       (AddStatement ''INSERT INTO TEMP (ID, VAL) VALUES (:id, :val)'' NewRequestBuilder)
     = Inr \<lparr>err = '''', list_rb = \<lparr>Credentials = None, Transaction = []\<rparr>,
            temp = Some \<lparr>Query = '''',
              Statement = ''INSERT INTO TEMP (ID, VAL) VALUES (:id, :val)'', NoFail = False,
              Values = None,
              ValuesBatch = Some [[(''id'', ''2''), (''val'', ''b'')],
                                  [(''id'', ''3''), (''val'', ''c'')],
                                  [(''id'', ''4''), (''val'', ''d'')]],
              Encoder = None, Decoder = None\<rparr>\<rparr>"
proof -
  let ?s = "''INSERT INTO TEMP (ID, VAL) VALUES (:id, :val)''"
  let ?rb = "AddStatement ?s (NewRequestBuilder :: string RequestBuilder)"
  let ?t = "requestItem_zero\<lparr>Statement := ?s\<rparr> :: string requestItem"
  have h1: "err ?rb = ''''" and h2: "temp ?rb = Some ?t"
    by (simp_all add: AddStatement_def NewRequestBuilder_def)
  have h3: "Values ?t = None" and h4: "ValuesBatch ?t = None" and h5: "Query ?t = ''''"
    by (simp_all add: requestItem_zero_def)
  from WithValues_promotes_to_batch [OF h1 h2 h3 h4,
      where ms = "[[(''id'', ''2''), (''val'', ''b'')], [(''id'', ''3''), (''val'', ''c'')],
                   [(''id'', ''4''), (''val'', ''d'')]]"] h5
  show ?thesis
    using h1 h2 by (simp add: builder_defs)
qed

lemma WithValues_statement_ok:
  assumes "err rb = ''''" "temp rb = Some t" "Query t = ''''"
  shows "\<exists>t'. WithValues (Some m) rb = Inr (rb\<lparr>temp := Some t'\<rparr>) \<and> Query t' = ''''"
  using assms by (auto simp: WithValues_def split: option.splits)

lemma WithValues_statement_chain_ok:
  assumes "err rb = ''''" "temp rb = Some t" "Query t = ''''"
  shows "\<exists>rb'. chain (map (\<lambda>m. CallWithValues (Some m)) ms) rb = Inr rb' \<and> err rb' = ''''"
  using assms
proof (induction ms arbitrary: rb t)
  case Nil
  then show ?case by simp
next
  case (Cons m ms)
  from WithValues_statement_ok [OF Cons.prems, of m] obtain t'
    where s: "WithValues (Some m) rb = Inr (rb\<lparr>temp := Some t'\<rparr>)" and q: "Query t' = ''''"
    by blast
  have "\<exists>rb'. chain (map (\<lambda>m. CallWithValues (Some m)) ms) (rb\<lparr>temp := Some t'\<rparr>) = Inr rb'
          \<and> err rb' = ''''"
    by (rule Cons.IH [of _ t']) (use Cons.prems q in simp_all)
  with s show ?case by simp
qed

text \<open>
  Claim C7. On a builder with no latched error, \<open>WithValues\<close> returns with an error
  latched exactly when the mapping is nil, or the open item is a query (its \<open>Query\<close>
  text is not empty, which is how the code tells a query) that already has a \<open>Values\<close>
  or a \<open>ValuesBatch\<close> binding. After \<open>AddStatement\<close>, any number of \<open>WithValues\<close>
  calls with non-nil mappings goes through with no error latched.
\<close>

theorem WithValues_error_iff:
  assumes "err rb = ''''"
  shows "((\<exists>rb'. WithValues v rb = Inr rb' \<and> err rb' \<noteq> '''') \<longleftrightarrow>
            (v = None \<or> (\<exists>t. temp rb = Some t \<and> Query t \<noteq> ''''
                              \<and> (Values t \<noteq> None \<or> ValuesBatch t \<noteq> None))))
       \<and> (\<exists>rb'. chain (CallAddStatement s # map (\<lambda>m. CallWithValues (Some m)) ms) rb = Inr rb'
                 \<and> err rb' = '''')"
proof
  show "(\<exists>rb'. WithValues v rb = Inr rb' \<and> err rb' \<noteq> '''') \<longleftrightarrow>
            (v = None \<or> (\<exists>t. temp rb = Some t \<and> Query t \<noteq> ''''
                              \<and> (Values t \<noteq> None \<or> ValuesBatch t \<noteq> None)))"
    using assms by (auto simp: WithValues_def split: option.splits)
next
  have "\<exists>rb'. chain (map (\<lambda>m. CallWithValues (Some m)) ms) (AddStatement s rb) = Inr rb'
          \<and> err rb' = ''''"
    by (rule WithValues_statement_chain_ok [of _ "requestItem_zero\<lparr>Statement := s\<rparr>"])
       (use assms in \<open>simp_all add: AddStatement_def requestItem_zero_def\<close>)
  then show "\<exists>rb'. chain (CallAddStatement s # map (\<lambda>m. CallWithValues (Some m)) ms) rb = Inr rb'
                 \<and> err rb' = ''''"
    by simp
qed

theorem WithValues_error_iff_witness:
  "err \<lparr>err = '''', list_rb = \<lparr>Credentials = None, Transaction = []\<rparr>,
        temp = Some (requestItem_zero\<lparr>Query := ''SELECT * FROM TEMP WHERE ID = :id'',
                       Values := Some [(''id'', 1::int)]\<rparr>)\<rparr> = ''''
   \<and> (\<exists>rb'. WithValues (Some [(''id'', 2)])
          \<lparr>err = '''', list_rb = \<lparr>Credentials = None, Transaction = []\<rparr>,
           temp = Some (requestItem_zero\<lparr>Query := ''SELECT * FROM TEMP WHERE ID = :id'',
                          Values := Some [(''id'', 1::int)]\<rparr>)\<rparr> = Inr rb'
        \<and> err rb' \<noteq> '''')
   \<and> (\<exists>rb'. chain [CallAddStatement ''INSERT INTO TEMP (ID, VAL) VALUES (:id, :val)'',
                    CallWithValues (Some [(''id'', 2)]), CallWithValues (Some [(''id'', 3)])]
          \<lparr>err = '''', list_rb = \<lparr>Credentials = None, Transaction = []\<rparr>,
           temp = Some (requestItem_zero\<lparr>Query := ''SELECT * FROM TEMP WHERE ID = :id'',
                          Values := Some [(''id'', 1::int)]\<rparr>)\<rparr> = Inr rb'
        \<and> err rb' = '''')"
proof -
  let ?rb = "\<lparr>err = '''', list_rb = \<lparr>Credentials = None, Transaction = []\<rparr>,
        temp = Some (requestItem_zero\<lparr>Query := ''SELECT * FROM TEMP WHERE ID = :id'',
                       Values := Some [(''id'', 1::int)]\<rparr>)\<rparr>"
  have h: "err ?rb = ''''"
    by simp
  from WithValues_error_iff [OF h, of "Some [(''id'', 2)]"
      "''INSERT INTO TEMP (ID, VAL) VALUES (:id, :val)''" "[[(''id'', 2)], [(''id'', 3)]]"]
  show ?thesis
    by (simp add: requestItem_zero_def)
qed

subsection \<open>Encoders\<close>

text \<open>
  Claim C9. On a builder with no latched error, \<open>WithEncoderAndCompression\<close> returns
  with an error latched exactly when the level is below 1 or above 19, or the fields list
  is empty, or the open item is a query (its \<open>Query\<close> text is not empty). On a statement
  just added, with a non-empty fields list, the levels 0 and 20 latch an error, and the
  levels 1 and 19 store the encoder on the item and latch none.
\<close>

theorem WithEncoderAndCompression_error_iff:
  assumes "err rb = ''''"
  shows "((\<exists>rb'. WithEncoderAndCompression pw lvl fs rb = Inr rb' \<and> err rb' \<noteq> '''') \<longleftrightarrow>
            (lvl < 1 \<or> lvl > 19 \<or> fs = [] \<or> (\<exists>t. temp rb = Some t \<and> Query t \<noteq> '''')))
       \<and> (\<exists>rb'. WithEncoderAndCompression pw 0 (f # gs) (AddStatement s rb) = Inr rb'
                 \<and> err rb' \<noteq> '''')
       \<and> (\<exists>rb'. WithEncoderAndCompression pw 20 (f # gs) (AddStatement s rb) = Inr rb'
                 \<and> err rb' \<noteq> '''')
       \<and> WithEncoderAndCompression pw 1 (f # gs) (AddStatement s rb) =
           Inr ((AddStatement s rb)\<lparr>temp := Some (requestItem_zero\<lparr>Statement := s,
                  Encoder := Some \<lparr>Password_c = pw, Fields = f # gs, CompressionLevel = 1\<rparr>\<rparr>)\<rparr>)
       \<and> WithEncoderAndCompression pw 19 (f # gs) (AddStatement s rb) =
           Inr ((AddStatement s rb)\<lparr>temp := Some (requestItem_zero\<lparr>Statement := s,
                  Encoder := Some \<lparr>Password_c = pw, Fields = f # gs, CompressionLevel = 19\<rparr>\<rparr>)\<rparr>)
       \<and> err (AddStatement s rb) = ''''"
proof -
  have iff: "(\<exists>rb'. WithEncoderAndCompression pw lvl fs rb = Inr rb' \<and> err rb' \<noteq> '''') \<longleftrightarrow>
            (lvl < 1 \<or> lvl > 19 \<or> fs = [] \<or> (\<exists>t. temp rb = Some t \<and> Query t \<noteq> ''''))"
    using assms by (auto simp: WithEncoderAndCompression_def split: option.splits)
  have st: "err (AddStatement s rb) = ''''"
    "temp (AddStatement s rb) = Some (requestItem_zero\<lparr>Statement := s\<rparr>)"
    using assms by (simp_all add: AddStatement_def)
  have q: "Query (requestItem_zero\<lparr>Statement := s\<rparr> :: 'a requestItem) = ''''"
    by (simp add: requestItem_zero_def)
  have lo: "\<exists>rb'. WithEncoderAndCompression pw 0 (f # gs) (AddStatement s rb) = Inr rb'
              \<and> err rb' \<noteq> ''''"
    using st by (simp add: WithEncoderAndCompression_def)
  have hi: "\<exists>rb'. WithEncoderAndCompression pw 20 (f # gs) (AddStatement s rb) = Inr rb'
              \<and> err rb' \<noteq> ''''"
    using st by (simp add: WithEncoderAndCompression_def)
  have one: "WithEncoderAndCompression pw 1 (f # gs) (AddStatement s rb) =
           Inr ((AddStatement s rb)\<lparr>temp := Some (requestItem_zero\<lparr>Statement := s,
                  Encoder := Some \<lparr>Password_c = pw, Fields = f # gs, CompressionLevel = 1\<rparr>\<rparr>)\<rparr>)"
    using st q by (simp add: WithEncoderAndCompression_def)
  have nineteen: "WithEncoderAndCompression pw 19 (f # gs) (AddStatement s rb) =
           Inr ((AddStatement s rb)\<lparr>temp := Some (requestItem_zero\<lparr>Statement := s,
                  Encoder := Some \<lparr>Password_c = pw, Fields = f # gs, CompressionLevel = 19\<rparr>\<rparr>)\<rparr>)"
    using st q by (simp add: WithEncoderAndCompression_def)
  from iff lo hi one nineteen st(1) show ?thesis by blast
qed

theorem WithEncoderAndCompression_error_iff_witness:
  "err (NewRequestBuilder :: int RequestBuilder) = ''''
   \<and> (\<exists>rb'. WithEncoderAndCompression ''pw'' 0 [''VAL'']
               (AddStatement ''INSERT INTO TEMP (ID, VAL) VALUES (1, 2)''
                  (NewRequestBuilder :: int RequestBuilder)) = Inr rb'
             \<and> err rb' = ''compressionLevel must be between 1 and 19'')
   \<and> (\<exists>rb'. WithEncoderAndCompression ''pw'' 20 [''VAL'']
               (AddStatement ''INSERT INTO TEMP (ID, VAL) VALUES (1, 2)''
                  (NewRequestBuilder :: int RequestBuilder)) = Inr rb'
             \<and> err rb' = ''compressionLevel must be between 1 and 19'')
   \<and> (\<exists>rb'. WithEncoderAndCompression ''pw'' 19 [''VAL'']
               (AddStatement ''INSERT INTO TEMP (ID, VAL) VALUES (1, 2)''
                  (NewRequestBuilder :: int RequestBuilder)) = Inr rb'
             \<and> err rb' = '''')
   \<and> (\<exists>rb'. WithEncoderAndCompression ''pw'' 19 [''VAL'']
               (AddQuery ''SELECT * FROM TEMP'' (NewRequestBuilder :: int RequestBuilder)) = Inr rb'
             \<and> err rb' = ''cannot specify an encoder for a query'')"
proof -
  have h: "err (NewRequestBuilder :: int RequestBuilder) = ''''"
    by (simp add: NewRequestBuilder_def)
  from WithEncoderAndCompression_error_iff [OF h, where pw = "''pw''" and lvl = 19
      and fs = "[''VAL'']" and f = "''VAL''" and gs = "[]"
      and s = "''INSERT INTO TEMP (ID, VAL) VALUES (1, 2)''"]
  show ?thesis
    by (simp add: builder_defs)
qed

subsection \<open>The items of a built Request\<close>

lemma items_texts_invoke:
  assumes "err rb = ''''" "invoke c rb = Inr rb'" "err rb' = ''''"
  shows "map item_text (Transaction (flush_temp rb')) =
           map item_text (Transaction (flush_temp rb))
             @ (if opens_item c then [call_text c] else [])"
  using assms
  by (cases c)
     (auto simp: AddQuery_def AddStatement_def WithNoFail_def WithValues_def
        WithEncoderAndCompression_def WithEncoder_def WithDecoder_def flush_temp_def
        item_text_def requestItem_zero_def
        split: option.splits if_splits)

lemma items_texts_chain:
  assumes "err rb = ''''" "chain cs rb = Inr rb'" "err rb' = ''''"
  shows "map item_text (Transaction (flush_temp rb')) =
           map item_text (Transaction (flush_temp rb)) @ map call_text (filter opens_item cs)"
  using assms
proof (induction cs arbitrary: rb)
  case Nil
  then show ?case by simp
next
  case (Cons c cs)
  from Cons.prems(2) obtain rb1 where s: "invoke c rb = Inr rb1" and r: "chain cs rb1 = Inr rb'"
    by (auto split: sum.splits)
  have e1: "err rb1 = ''''"
  proof (rule ccontr)
    assume "err rb1 \<noteq> ''''"
    with latched_chain [of rb1 cs] r have "rb' = rb1" by simp
    with \<open>err rb1 \<noteq> ''''\<close> Cons.prems(3) show False by simp
  qed
  from items_texts_invoke [OF Cons.prems(1) s e1] Cons.IH [OF e1 r Cons.prems(3)]
  show ?case by simp
qed

text \<open>
  Claim C8. For every chain of builder calls on a new builder (of \<open>AddQuery\<close>,
  \<open>AddStatement\<close> and \<open>WithValues\<close>, and of the other configuring calls as well) after
  which \<open>Build\<close> succeeds, the Request has as many items as the chain has \<open>AddQuery\<close>
  and \<open>AddStatement\<close> calls, and its items carry, in order, the SQL texts of these calls:
  the text of an \<open>AddQuery\<close> as the item's query, that of an \<open>AddStatement\<close> as its
  statement.
\<close>

theorem Build_items_follow_add_calls:
  assumes "chain cs NewRequestBuilder = Inr rb" and "fst (Build rb) = Inr R"
  shows "length (Transaction (req R)) = length (filter opens_item cs)
     \<and> map item_text (Transaction (req R)) = map call_text (filter opens_item cs)"
proof -
  from assms(2) have e: "err rb = ''''" and R: "req R = flush_temp rb"
    by (auto simp: Build_def Let_def split: option.splits if_splits)
  have "map item_text (Transaction (flush_temp rb)) =
          map item_text (Transaction (flush_temp (NewRequestBuilder :: 'a RequestBuilder)))
            @ map call_text (filter opens_item cs)"
    by (rule items_texts_chain [OF _ assms(1) e]) (simp add: NewRequestBuilder_def)
  then have m: "map item_text (Transaction (req R)) = map call_text (filter opens_item cs)"
    by (simp add: R flush_temp_def NewRequestBuilder_def)
  have "length (map item_text (Transaction (req R))) =
          length (map call_text (filter opens_item cs))"
    by (simp only: m)
  then have "length (Transaction (req R)) = length (filter opens_item cs)"
    by simp
  with m show ?thesis by simp
qed

theorem Build_items_follow_add_calls_witness:
  "\<exists>rb R. chain readme_calls NewRequestBuilder = Inr rb \<and> fst (Build rb) = Inr R
      \<and> length (Transaction (req R)) = 5
      \<and> map item_text (Transaction (req R)) =
          [(''SELECT * FROM TEMP'', ''''),
           (''SELECT * FROM TEMP WHERE ID = :id'', ''''),
           ('''', ''INSERT INTO TEMP (ID, VAL) VALUES (0, 0)''),
           ('''', ''INSERT INTO TEMP (ID, VAL) VALUES (:id, :val)''),
           ('''', ''#Q2'')]"
proof -
  have "\<exists>rb. chain readme_calls NewRequestBuilder = Inr rb \<and> (\<exists>R. fst (Build rb) = Inr R)"
    by (simp add: readme_calls_def builder_defs)
  then obtain rb R where c: "chain readme_calls NewRequestBuilder = Inr rb"
    and b: "fst (Build rb) = Inr R"
    by blast
  from Build_items_follow_add_calls [OF c b]
  have "length (Transaction (req R)) = 5
      \<and> map item_text (Transaction (req R)) =
          [(''SELECT * FROM TEMP'', ''''),
           (''SELECT * FROM TEMP WHERE ID = :id'', ''''),
           ('''', ''INSERT INTO TEMP (ID, VAL) VALUES (0, 0)''),
           ('''', ''INSERT INTO TEMP (ID, VAL) VALUES (:id, :val)''),
           ('''', ''#Q2'')]"
    by (simp add: readme_calls_def)
  with c b show ?thesis
    by (intro exI [of _ rb] exI [of _ R]) simp
qed

subsection \<open>The no-fail flag\<close>

text \<open>
  Claim C10. On a builder with no latched error whose open item is a query,
  \<open>WithNoFail\<close> sets the item's flag and latches no error; \<open>Build\<close> then succeeds with
  the flagged query as the last item of the Request, and the JSON of that item has the
  field \<open>noFail\<close> (true) beside the field \<open>query\<close>.
\<close>

theorem WithNoFail_on_query:
  assumes "err rb = ''''" "temp rb = Some t" "Query t \<noteq> ''''"
  shows "WithNoFail rb = Inr (rb\<lparr>temp := Some (t\<lparr>NoFail := True\<rparr>)\<rparr>)
    \<and> err (rb\<lparr>temp := Some (t\<lparr>NoFail := True\<rparr>)\<rparr>) = ''''
    \<and> fst (Build (rb\<lparr>temp := Some (t\<lparr>NoFail := True\<rparr>)\<rparr>)) =
        Inr \<lparr>req = (list_rb rb)\<lparr>Transaction :=
                     Transaction (list_rb rb) @ [t\<lparr>NoFail := True\<rparr>]\<rparr>\<rparr>
    \<and> (''noFail'', JBool True) \<in> set (requestItem_json (t\<lparr>NoFail := True\<rparr>))
    \<and> (''query'', JString (Query t)) \<in> set (requestItem_json (t\<lparr>NoFail := True\<rparr>))"
  using assms by (simp add: WithNoFail_def Build_def flush_temp_def requestItem_json_def)

theorem WithNoFail_on_query_witness:
  "chain [CallAddQuery ''SELECT * FROM TEMP'', CallWithNoFail] (NewRequestBuilder :: int RequestBuilder)
     = Inr \<lparr>err = '''', list_rb = \<lparr>Credentials = None, Transaction = []\<rparr>,
            temp = Some (requestItem_zero\<lparr>Query := ''SELECT * FROM TEMP'', NoFail := True\<rparr>)\<rparr>
   \<and> fst (Build \<lparr>err = '''', list_rb = \<lparr>Credentials = None, Transaction = []\<rparr>,
            temp = Some (requestItem_zero\<lparr>Query := ''SELECT * FROM TEMP'', NoFail := True\<rparr>
                         :: int requestItem)\<rparr>)
     = Inr \<lparr>req = \<lparr>Credentials = None, Transaction =
              [requestItem_zero\<lparr>Query := ''SELECT * FROM TEMP'', NoFail := True\<rparr>]\<rparr>\<rparr>
   \<and> requestItem_json (requestItem_zero\<lparr>Query := ''SELECT * FROM TEMP'', NoFail := True\<rparr>
                         :: int requestItem)
     = [(''query'', JString ''SELECT * FROM TEMP''), (''noFail'', JBool True)]"
proof -
  let ?rb = "AddQuery ''SELECT * FROM TEMP'' (NewRequestBuilder :: int RequestBuilder)"
  let ?t = "requestItem_zero\<lparr>Query := ''SELECT * FROM TEMP''\<rparr> :: int requestItem"
  have h1: "err ?rb = ''''" and h2: "temp ?rb = Some ?t"
    by (simp_all add: AddQuery_def NewRequestBuilder_def)
  have h3: "Query ?t \<noteq> ''''"
    by (simp add: requestItem_zero_def)
  from WithNoFail_on_query [OF h1 h2 h3]
  show ?thesis
    by (simp add: AddQuery_def NewRequestBuilder_def flush_temp_def requestItem_zero_def
        requestItem_json_def)
qed

section \<open>The client: what a call does to the Request, and what it returns\<close>

lemmas client_defs = NewClientBuilder_def WithURL_def WithInlineAuth_def WithHTTPAuth_def
  ClientBuilder_Build_def AUTH_MODE_HTTP_def AUTH_MODE_INLINE_def AUTH_MODE_NONE_def

lemmas send_defs = Send_def SendWithContext_def attachCredentials_def exchange_def
  roundTrip_def remoteError_def canned_def WsError_zero_def

text \<open>
  Claim C1 (in inline mode the credentials go to a copy; the stored Request is unchanged
  and carries no credentials into a later call). It fails: a Client built with inline
  authentication leaves its user and password in the Request it was given, and a Client
  built with no authentication, given that Request next, leaves them there (and marshals
  the Request as it is).
\<close>

theorem Send_leaves_credentials_in_Request:
  "ClientBuilder_Build (WithInlineAuth ''myUser1'' ''myHotPassword''
       (WithURL ''http://localhost:12321/mydb2'' NewClientBuilder))
     = Inr \<lparr>url = ''http://localhost:12321/mydb2'', authMode = AUTH_MODE_INLINE,
            user = ''myUser1'', password = ''myHotPassword''\<rparr>
   \<and> ClientBuilder_Build (WithURL ''http://localhost:12321/mydb'' NewClientBuilder)
     = Inr \<lparr>url = ''http://localhost:12321/mydb'', authMode = AUTH_MODE_NONE,
            user = '''', password = ''''\<rparr>
   \<and> fst (Build (AddQuery ''SELECT * FROM TEMP'' (NewRequestBuilder :: int RequestBuilder)))
     = Inr \<lparr>req = \<lparr>Credentials = None,
                    Transaction = [requestItem_zero\<lparr>Query := ''SELECT * FROM TEMP''\<rparr>]\<rparr>\<rparr>
   \<and> snd (Send (canned 200 ''{results:[]}'' (None, WsError_zero) (Inr \<lparr>Results = []\<rparr>))
          \<lparr>url = ''http://localhost:12321/mydb2'', authMode = AUTH_MODE_INLINE,
           user = ''myUser1'', password = ''myHotPassword''\<rparr>
          \<lparr>req = \<lparr>Credentials = None,
                  Transaction = [requestItem_zero\<lparr>Query := ''SELECT * FROM TEMP''\<rparr>]\<rparr>\<rparr>)
     = \<lparr>req = \<lparr>Credentials = Some \<lparr>User = ''myUser1'', Password = ''myHotPassword''\<rparr>,
                Transaction = [requestItem_zero\<lparr>Query := ''SELECT * FROM TEMP''\<rparr>]\<rparr>\<rparr>
   \<and> snd (Send (canned 200 ''{results:[]}'' (None, WsError_zero) (Inr \<lparr>Results = []\<rparr>))
          \<lparr>url = ''http://localhost:12321/mydb2'', authMode = AUTH_MODE_INLINE,
           user = ''myUser1'', password = ''myHotPassword''\<rparr>
          \<lparr>req = \<lparr>Credentials = None,
                  Transaction = [requestItem_zero\<lparr>Query := ''SELECT * FROM TEMP''\<rparr>]\<rparr>\<rparr>)
     \<noteq> \<lparr>req = \<lparr>Credentials = None,
                  Transaction = [requestItem_zero\<lparr>Query := ''SELECT * FROM TEMP''\<rparr>]\<rparr>\<rparr>
   \<and> snd (Send (canned 200 ''{results:[]}'' (None, WsError_zero) (Inr \<lparr>Results = []\<rparr>))
          \<lparr>url = ''http://localhost:12321/mydb'', authMode = AUTH_MODE_NONE,
           user = '''', password = ''''\<rparr>
          \<lparr>req = \<lparr>Credentials = Some \<lparr>User = ''myUser1'', Password = ''myHotPassword''\<rparr>,
                  Transaction = [requestItem_zero\<lparr>Query := ''SELECT * FROM TEMP''\<rparr>]\<rparr>\<rparr>)
     = \<lparr>req = \<lparr>Credentials = Some \<lparr>User = ''myUser1'', Password = ''myHotPassword''\<rparr>,
                Transaction = [requestItem_zero\<lparr>Query := ''SELECT * FROM TEMP''\<rparr>]\<rparr>\<rparr>"
  by (simp add: client_defs send_defs builder_defs)

text \<open>
  Claim C1, amended. \<open>SendWithContext\<close> in inline mode writes the Client's user and
  password into the Request it was given, and in the other modes leaves the Request as it
  is; the transaction list is never changed. What is marshalled and posted is the stored
  Request as the call leaves it, \<open>Send\<close> is the same call under the background context,
  and after two calls the Request holds the credentials of the latest call made in inline
  mode, if any.
\<close>

theorem Send_writes_credentials_into_Request:
  "snd (SendWithContext E ctx c r) =
     (if authMode c = AUTH_MODE_INLINE
      then r\<lparr>req := (req r)\<lparr>Credentials := Some \<lparr>User = user c, Password = password c\<rparr>\<rparr>\<rparr>
      else r)
   \<and> Transaction (req (snd (SendWithContext E ctx c r))) = Transaction (req r)
   \<and> fst (SendWithContext E ctx c r) = exchange E ctx c (req (snd (SendWithContext E ctx c r)))
   \<and> Send E c r = SendWithContext E (context_Background E) c r
   \<and> Credentials (req (snd (SendWithContext E2 ctx2 c2 (snd (SendWithContext E ctx c r))))) =
       (if authMode c2 = AUTH_MODE_INLINE then Some \<lparr>User = user c2, Password = password c2\<rparr>
        else if authMode c = AUTH_MODE_INLINE then Some \<lparr>User = user c, Password = password c\<rparr>
        else Credentials (req r))"
  by (simp add: SendWithContext_def Send_def attachCredentials_def Let_def)

subsection \<open>Status 200\<close>

lemma decode_row_ok:
  "list_all (\<lambda>(k, v). \<not> isl (json_Unmarshal_value E v)) row \<Longrightarrow>
     \<exists>out. decode_row E row Rirsi = Inr out"
  by (induction row arbitrary: Rirsi) (auto split: sum.splits)

lemma decode_row_fail:
  "\<not> list_all (\<lambda>(k, v). \<not> isl (json_Unmarshal_value E v)) row \<Longrightarrow>
     \<exists>e. decode_row E row Rirsi = Inl e"
  by (induction row arbitrary: Rirsi) (auto split: sum.splits)

lemma decode_rows_ok:
  "list_all (list_all (\<lambda>(k, v). \<not> isl (json_Unmarshal_value E v))) rows \<Longrightarrow>
     \<exists>out. decode_rows E rows Rirs = Inr (Rirs @ out) \<and> length out = length rows"
proof (induction rows arbitrary: Rirs)
  case Nil
  then show ?case by simp
next
  case (Cons row rows)
  from Cons.prems decode_row_ok [of E row "[]"] obtain d where d: "decode_row E row [] = Inr d"
    by auto
  from Cons.prems Cons.IH [of "Rirs @ [d]"] obtain out
    where "decode_rows E rows (Rirs @ [d]) = Inr ((Rirs @ [d]) @ out)" "length out = length rows"
    by auto
  with d show ?case
    by (intro exI [of _ "d # out"]) simp
qed

lemma decode_rows_fail:
  "\<not> list_all (list_all (\<lambda>(k, v). \<not> isl (json_Unmarshal_value E v))) rows \<Longrightarrow>
     \<exists>e. decode_rows E rows Rirs = Inl e"
proof (induction rows arbitrary: Rirs)
  case Nil
  then show ?case by simp
next
  case (Cons row rows)
  show ?case
  proof (cases "list_all (\<lambda>(k, v). \<not> isl (json_Unmarshal_value E v)) row")
    case True
    with decode_row_ok [of E row "[]"] obtain d where d: "decode_row E row [] = Inr d"
      by auto
    from True Cons.prems have "\<not> list_all (list_all (\<lambda>(k, v). \<not> isl (json_Unmarshal_value E v))) rows"
      by simp
    from Cons.IH [OF this, of "Rirs @ [d]"] d show ?thesis by simp
  next
    case False
    from decode_row_fail [OF False, of "[]"] show ?thesis by auto
  qed
qed

lemma decode_items_ok:
  "cells_decode E rs \<Longrightarrow>
     \<exists>new. decode_items E rs Res = Inr (Res @ new) \<and> list_all2 copied rs new"
proof (induction rs arbitrary: Res)
  case Nil
  then show ?case by simp
next
  case (Cons r rs)
  let ?Ri = "\<lparr>Success = Success r, RowsUpdated = RowsUpdated r,
              RowsUpdatedBatch = RowsUpdatedBatch r, ResultSet = None, Error = Error r\<rparr>
              :: 'a gomap ResponseItem"
  from Cons.prems have rest: "cells_decode E rs"
    by (simp add: cells_decode_def)
  show ?case
  proof (cases "ResultSet r")
    case None
    from Cons.IH [OF rest, of "Res @ [?Ri]"] obtain new
      where n: "decode_items E rs (Res @ [?Ri]) = Inr ((Res @ [?Ri]) @ new)"
        and c: "list_all2 copied rs new"
      by blast
    have "copied r ?Ri"
      using None by (simp add: copied_def)
    with n c None show ?thesis
      by (intro exI [of _ "?Ri # new"]) simp
  next
    case (Some rows)
    with Cons.prems have "list_all (list_all (\<lambda>(k, v). \<not> isl (json_Unmarshal_value E v))) rows"
      by (simp add: cells_decode_def)
    from decode_rows_ok [OF this, of "[]"] obtain drows
      where d: "decode_rows E rows [] = Inr drows" and l: "length drows = length rows"
      by auto
    let ?Ri' = "?Ri\<lparr>ResultSet := Some drows\<rparr>"
    from Cons.IH [OF rest, of "Res @ [?Ri']"] obtain new
      where n: "decode_items E rs (Res @ [?Ri']) = Inr ((Res @ [?Ri']) @ new)"
        and c: "list_all2 copied rs new"
      by blast
    have "copied r ?Ri'"
      using Some l by (simp add: copied_def)
    with n c Some d show ?thesis
      by (intro exI [of _ "?Ri' # new"]) simp
  qed
qed

lemma decode_items_fail:
  "\<not> cells_decode E rs \<Longrightarrow> \<exists>e. decode_items E rs Res = Inl e"
proof (induction rs arbitrary: Res)
  case Nil
  then show ?case by (simp add: cells_decode_def)
next
  case (Cons r rs)
  show ?case
  proof (cases "ResultSet r")
    case None
    with Cons.prems have "\<not> cells_decode E rs"
      by (simp add: cells_decode_def)
    from Cons.IH [OF this] None show ?thesis by simp
  next
    case (Some rows)
    show ?thesis
    proof (cases "list_all (list_all (\<lambda>(k, v). \<not> isl (json_Unmarshal_value E v))) rows")
      case True
      from decode_rows_ok [OF True, of "[]"] obtain drows
        where d: "decode_rows E rows [] = Inr drows"
        by auto
      from True Some Cons.prems have "\<not> cells_decode E rs"
        by (simp add: cells_decode_def)
      from Cons.IH [OF this] Some d show ?thesis by simp
    next
      case False
      from decode_rows_fail [OF False, of "[]"] Some show ?thesis by auto
    qed
  qed
qed

lemma copied_populated: "copied w d \<Longrightarrow> populated d = populated w"
  by (cases "ResultSet d"; cases "ResultSet w") (simp_all add: copied_def populated_def)

text \<open>
  Claim C3 (a decoded item has exactly one outcome field populated). It fails: the items
  are copied as the remote sent them. Of the two items below, decoded from a 200 body, one
  has no outcome field populated and the other has two.
\<close>

theorem Send_200_passes_unpopulated_items:
  "fst (Send (canned 200 ''{results:[{success:true},{success:false,rowsUpdated:1,error:locked}]}''
               (None, WsError_zero)
               (Inr \<lparr>Results =
                  [\<lparr>Success = True, RowsUpdated = None, RowsUpdatedBatch = None,
                    ResultSet = None, Error = ''''\<rparr>,
                   \<lparr>Success = False, RowsUpdated = Some 1, RowsUpdatedBatch = None,
                    ResultSet = None, Error = ''locked''\<rparr>]\<rparr>))
          \<lparr>url = ''http://localhost:12321/mydb'', authMode = AUTH_MODE_NONE,
           user = '''', password = ''''\<rparr>
          \<lparr>req = \<lparr>Credentials = None,
                  Transaction = [requestItem_zero\<lparr>Query := ''SELECT * FROM TEMP''\<rparr>,
                                 requestItem_zero\<lparr>Statement := ''DELETE FROM TEMP''\<rparr>]\<rparr>\<rparr>)
     = (Some \<lparr>Results =
                  [\<lparr>Success = True, RowsUpdated = None, RowsUpdatedBatch = None,
                    ResultSet = None, Error = ''''\<rparr>,
                   \<lparr>Success = False, RowsUpdated = Some 1, RowsUpdatedBatch = None,
                    ResultSet = None, Error = ''locked''\<rparr>]\<rparr>, 200, None)
   \<and> populated (\<lparr>Success = True, RowsUpdated = None, RowsUpdatedBatch = None,
                   ResultSet = None, Error = ''''\<rparr> :: int gomap ResponseItem) = 0
   \<and> populated (\<lparr>Success = False, RowsUpdated = Some 1, RowsUpdatedBatch = None,
                   ResultSet = None, Error = ''locked''\<rparr> :: int gomap ResponseItem) = 2"
  by (simp add: client_defs send_defs populated_def)

text \<open>
  Claim C3, amended. For a response with status 200 whose body unmarshals to \<open>N\<close>
  results: when every cell of every result set unmarshals, \<open>SendWithContext\<close> returns
  a Response of \<open>N\<close> items in the order of the body, each with the success flag, the
  error, the row count and the batch of row counts of its wire item, a result set exactly
  when the wire item has one and with as many rows; so each decoded item has as many
  populated outcome fields as its wire item. When some cell does not unmarshal, it returns
  no Response and a naked error.
\<close>

theorem Send_200_copies_items:
  assumes "roundTrip E ctx c (req (attachCredentials c r)) = Inr (200, body)"
    and "json_Unmarshal_response E body = Inr res"
  shows "(cells_decode E (Results res) \<longrightarrow>
            (\<exists>R. fst (SendWithContext E ctx c r) = (Some R, 200, None)
                \<and> length (Results R) = length (Results res)
                \<and> list_all2 copied (Results res) (Results R)
                \<and> list_all2 (\<lambda>w d. populated d = populated w) (Results res) (Results R)))
       \<and> (\<not> cells_decode E (Results res) \<longrightarrow>
            (\<exists>e. fst (SendWithContext E ctx c r) = (None, 200, Some (Naked e))))"
proof (intro conjI impI)
  assume "cells_decode E (Results res)"
  from decode_items_ok [OF this, of "[]"] obtain items
    where d: "decode_items E (Results res) [] = Inr items"
      and c: "list_all2 copied (Results res) items"
    by auto
  from c have p: "list_all2 (\<lambda>w d. populated d = populated w) (Results res) items"
    by (rule list_all2_mono) (rule copied_populated)
  from c have l: "length items = length (Results res)"
    by (simp add: list_all2_lengthD)
  have "fst (SendWithContext E ctx c r) = (Some \<lparr>Results = items\<rparr>, 200, None)"
    using assms d by (simp add: SendWithContext_def exchange_def Let_def)
  with c p l show "\<exists>R. fst (SendWithContext E ctx c r) = (Some R, 200, None)
                \<and> length (Results R) = length (Results res)
                \<and> list_all2 copied (Results res) (Results R)
                \<and> list_all2 (\<lambda>w d. populated d = populated w) (Results res) (Results R)"
    by (intro exI [of _ "\<lparr>Results = items\<rparr>"]) simp
next
  assume "\<not> cells_decode E (Results res)"
  from decode_items_fail [OF this, of "[]"] obtain e
    where "decode_items E (Results res) [] = Inl e"
    by auto
  with assms show "\<exists>e. fst (SendWithContext E ctx c r) = (None, 200, Some (Naked e))"
    by (simp add: SendWithContext_def exchange_def Let_def)
qed

theorem Send_200_copies_items_witness:
  "fst (Send (canned 200 ''{results:[{success:true,resultSet:[{ID:1,VAL:2}]},{success:true,rowsUpdated:1}]}''
               (None, WsError_zero)
               (Inr \<lparr>Results =
                  [\<lparr>Success = True, RowsUpdated = None, RowsUpdatedBatch = None,
                    ResultSet = Some [[(''ID'', ''1''), (''VAL'', ''2'')]], Error = ''''\<rparr>,
                   \<lparr>Success = True, RowsUpdated = Some 1, RowsUpdatedBatch = None,
                    ResultSet = None, Error = ''''\<rparr>]\<rparr>))
          \<lparr>url = ''http://localhost:12321/mydb'', authMode = AUTH_MODE_NONE,
           user = '''', password = ''''\<rparr>
          \<lparr>req = \<lparr>Credentials = None,
                  Transaction = [requestItem_zero\<lparr>Query := ''SELECT * FROM TEMP''\<rparr>,
                                 requestItem_zero\<lparr>Statement := ''DELETE FROM TEMP''\<rparr>]\<rparr>\<rparr>)
     = (Some \<lparr>Results =
                  [\<lparr>Success = True, RowsUpdated = None, RowsUpdatedBatch = None,
                    ResultSet = Some [[(''ID'', 1), (''VAL'', 2)]], Error = ''''\<rparr>,
                   \<lparr>Success = True, RowsUpdated = Some 1, RowsUpdatedBatch = None,
                    ResultSet = None, Error = ''''\<rparr>]\<rparr>, 200, None)
   \<and> (\<exists>e. fst (Send (canned 200 ''{results:[{success:true,resultSet:[{ID:1,VAL:ONE}]}]}''
               (None, WsError_zero)
               (Inr \<lparr>Results =
                  [\<lparr>Success = True, RowsUpdated = None, RowsUpdatedBatch = None,
                    ResultSet = Some [[(''ID'', ''1''), (''VAL'', ''ONE'')]], Error = ''''\<rparr>]\<rparr>))
          \<lparr>url = ''http://localhost:12321/mydb'', authMode = AUTH_MODE_NONE,
           user = '''', password = ''''\<rparr>
          \<lparr>req = \<lparr>Credentials = None,
                  Transaction = [requestItem_zero\<lparr>Query := ''SELECT * FROM TEMP''\<rparr>]\<rparr>\<rparr>)
     = (None, 200, Some (Naked e)))"
proof -
  let ?c = "\<lparr>url = ''http://localhost:12321/mydb'', authMode = AUTH_MODE_NONE,
           user = '''', password = ''''\<rparr>"
  let ?b1 = "''{results:[{success:true,resultSet:[{ID:1,VAL:2}]},{success:true,rowsUpdated:1}]}''"
  let ?res1 = "\<lparr>Results =
                  [\<lparr>Success = True, RowsUpdated = None, RowsUpdatedBatch = None,
                    ResultSet = Some [[(''ID'', ''1''), (''VAL'', ''2'')]], Error = ''''\<rparr>,
                   \<lparr>Success = True, RowsUpdated = Some 1, RowsUpdatedBatch = None,
                    ResultSet = None, Error = ''''\<rparr>]\<rparr> :: response"
  let ?E1 = "canned 200 ?b1 (None, WsError_zero) (Inr ?res1)"
  let ?r1 = "\<lparr>req = \<lparr>Credentials = None,
                  Transaction = [requestItem_zero\<lparr>Query := ''SELECT * FROM TEMP''\<rparr>,
                                 requestItem_zero\<lparr>Statement := ''DELETE FROM TEMP''\<rparr>]\<rparr>\<rparr>
             :: int Request"
  let ?b2 = "''{results:[{success:true,resultSet:[{ID:1,VAL:ONE}]}]}''"
  let ?res2 = "\<lparr>Results =
                  [\<lparr>Success = True, RowsUpdated = None, RowsUpdatedBatch = None,
                    ResultSet = Some [[(''ID'', ''1''), (''VAL'', ''ONE'')]], Error = ''''\<rparr>]\<rparr>
               :: response"
  let ?E2 = "canned 200 ?b2 (None, WsError_zero) (Inr ?res2)"
  let ?r2 = "\<lparr>req = \<lparr>Credentials = None,
                  Transaction = [requestItem_zero\<lparr>Query := ''SELECT * FROM TEMP''\<rparr>]\<rparr>\<rparr>
             :: int Request"
  have a1: "roundTrip ?E1 () ?c (req (attachCredentials ?c ?r1)) = Inr (200, ?b1)"
    by (simp add: client_defs send_defs)
  have p1: "json_Unmarshal_response ?E1 ?b1 = Inr ?res1"
    by (simp add: canned_def)
  have ok1: "cells_decode ?E1 (Results ?res1)"
    by (simp add: cells_decode_def canned_def)
  have a2: "roundTrip ?E2 () ?c (req (attachCredentials ?c ?r2)) = Inr (200, ?b2)"
    by (simp add: client_defs send_defs)
  have p2: "json_Unmarshal_response ?E2 ?b2 = Inr ?res2"
    by (simp add: canned_def)
  have ko2: "\<not> cells_decode ?E2 (Results ?res2)"
    by (simp add: cells_decode_def canned_def)
  from Send_200_copies_items [OF a1 p1] ok1 Send_200_copies_items [OF a2 p2] ko2
  have "\<exists>e. fst (SendWithContext ?E2 () ?c ?r2) = (None, 200, Some (Naked e))"
    by blast
  moreover have "fst (Send ?E1 ?c ?r1) = (Some \<lparr>Results =
                  [\<lparr>Success = True, RowsUpdated = None, RowsUpdatedBatch = None,
                    ResultSet = Some [[(''ID'', 1), (''VAL'', 2)]], Error = ''''\<rparr>,
                   \<lparr>Success = True, RowsUpdated = Some 1, RowsUpdatedBatch = None,
                    ResultSet = None, Error = ''''\<rparr>]\<rparr>, 200, None)"
    by (simp add: client_defs send_defs)
  ultimately show ?thesis
    by (simp add: Send_def canned_def)
qed

subsection \<open>Any other status\<close>

text \<open>
  Claim C5 (every response with a status other than 200 gives a \<open>WsError\<close>). It fails
  where the body cannot be read: \<^verbatim>\<open>io.ReadAll\<close> is called, and its error returned,
  before the status is looked at. Below, the remote answers with status 500 and a body
  that breaks off; \<open>Send\<close> returns the status and the naked read error.
\<close>

theorem Send_non_200_unread_body_gives_plain_error:
  "client_Do
      ((canned 500 '''' (None, WsError_zero) (Inl ''unused''))
         \<lparr>client_Do := (\<lambda>post. Inr \<lparr>StatusCode = 500, Body = Inl ''unexpected EOF''\<rparr>)\<rparr>)
      \<lparr>Ctx = (), Method = ''POST'', URL = ''http://localhost:12321/mydb'', Payload = ''{}'',
       BasicAuth = None, Header = [(''Content-Type'', ''application/json'')]\<rparr>
     = Inr \<lparr>StatusCode = 500, Body = Inl ''unexpected EOF''\<rparr>
   \<and> fst (Send
          ((canned 500 '''' (None, WsError_zero) (Inl ''unused''))
             \<lparr>client_Do := (\<lambda>post. Inr \<lparr>StatusCode = 500, Body = Inl ''unexpected EOF''\<rparr>)\<rparr>)
          \<lparr>url = ''http://localhost:12321/mydb'', authMode = AUTH_MODE_NONE,
           user = '''', password = ''''\<rparr>
          \<lparr>req = \<lparr>Credentials = None,
                  Transaction = [requestItem_zero\<lparr>Query := ''SELENCT * FROM TEMP''\<rparr>
                                   :: int requestItem]\<rparr>\<rparr>)
     = (None, 500, Some (Naked ''unexpected EOF''))"
  by (simp add: client_defs send_defs)

text \<open>
  Claim C5, amended. For a response of the remote whose status is not 200:
  when the body is read to its end, \<open>SendWithContext\<close> returns no Response, the status,
  and a \<open>WsError\<close> whose code is the status, with the index and the message unmarshalled
  from the body when the body unmarshals, and with the index \<open>-1\<close> and the body text as
  the message when it does not; when reading the body fails, it returns no Response, the
  status, and the naked read error. The hypotheses say that the Request as the call leaves
  it marshals, that the POST request is built, and that \<^verbatim>\<open>client.Do\<close>, given that
  request with the basic authentication (in HTTP mode) and the content type set, returns
  the response.
\<close>

theorem Send_non_200_WsError_or_read_error:
  assumes "json_Marshal E (req (attachCredentials c r)) = Inr jsonData"
    and "http_NewRequestWithContext E ctx ''POST'' (url c) jsonData = Inr post"
    and "client_Do E
           (let post1 = (if authMode c = AUTH_MODE_HTTP
                         then post\<lparr>BasicAuth := Some (user c, password c)\<rparr> else post)
            in post1\<lparr>Header := Header post1 @ [(''Content-Type'', ''application/json'')]\<rparr>)
         = Inr resp"
    and "StatusCode resp \<noteq> 200"
  shows "(\<forall>e. Body resp = Inl e \<longrightarrow>
            fst (SendWithContext E ctx c r) = (None, StatusCode resp, Some (Naked e)))
       \<and> (\<forall>body w. Body resp = Inr body
              \<and> json_Unmarshal_WsError E body WsError_zero = (None, w) \<longrightarrow>
            fst (SendWithContext E ctx c r) =
              (None, StatusCode resp,
               Some (Remote \<lparr>RequestIdx = RequestIdx w, Msg = Msg w, Code = StatusCode resp\<rparr>)))
       \<and> (\<forall>body e w. Body resp = Inr body
              \<and> json_Unmarshal_WsError E body WsError_zero = (Some e, w) \<longrightarrow>
            fst (SendWithContext E ctx c r) =
              (None, StatusCode resp,
               Some (Remote \<lparr>RequestIdx = - 1, Msg = body, Code = StatusCode resp\<rparr>)))"
proof -
  have rt: "roundTrip E ctx c (req (attachCredentials c r)) =
              (case Body resp of
                 Inl e \<Rightarrow> Inl (StatusCode resp, e)
               | Inr body \<Rightarrow> Inr (StatusCode resp, body))"
    using assms(1,2,3)
    by (cases "authMode c = AUTH_MODE_HTTP") (simp_all add: roundTrip_def Let_def)
  show ?thesis
    using assms(4) by (simp add: SendWithContext_def exchange_def remoteError_def rt Let_def)
qed

theorem Send_non_200_WsError_or_read_error_witness:
  "fst (Send (canned 500 ''{reqIdx:0,error:near SELENCT: syntax error}''
               (None, \<lparr>RequestIdx = 0, Msg = ''near SELENCT: syntax error'', Code = 0\<rparr>)
               (Inl ''unused''))
          \<lparr>url = ''http://localhost:12321/mydb2'', authMode = AUTH_MODE_INLINE,
           user = ''myUser1'', password = ''myHotPassword''\<rparr>
          \<lparr>req = \<lparr>Credentials = None,
                  Transaction = [requestItem_zero\<lparr>Query := ''SELENCT * FROM TEMP''\<rparr>
                                   :: int requestItem]\<rparr>\<rparr>)
     = (None, 500, Some (Remote \<lparr>RequestIdx = 0, Msg = ''near SELENCT: syntax error'',
                                 Code = 500\<rparr>))
   \<and> fst (Send (canned 404 ''404 page not found''
               (Some ''invalid character'', WsError_zero) (Inl ''unused''))
          \<lparr>url = ''http://localhost:12321/nodb'', authMode = AUTH_MODE_HTTP,
           user = ''myUser1'', password = ''myHotPassword''\<rparr>
          \<lparr>req = \<lparr>Credentials = None,
                  Transaction = [requestItem_zero\<lparr>Query := ''SELECT * FROM TEMP''\<rparr>
                                   :: int requestItem]\<rparr>\<rparr>)
     = (None, 404, Some (Remote \<lparr>RequestIdx = - 1, Msg = ''404 page not found'', Code = 404\<rparr>))
   \<and> fst (Send
          ((canned 500 '''' (None, WsError_zero) (Inl ''unused''))
             \<lparr>client_Do := (\<lambda>post. Inr \<lparr>StatusCode = 502, Body = Inl ''unexpected EOF''\<rparr>)\<rparr>)
          \<lparr>url = ''http://localhost:12321/mydb'', authMode = AUTH_MODE_NONE,
           user = '''', password = ''''\<rparr>
          \<lparr>req = \<lparr>Credentials = None,
                  Transaction = [requestItem_zero\<lparr>Query := ''SELECT * FROM TEMP''\<rparr>
                                   :: int requestItem]\<rparr>\<rparr>)
     = (None, 502, Some (Naked ''unexpected EOF''))"
proof -
  let ?c1 = "\<lparr>url = ''http://localhost:12321/mydb2'', authMode = AUTH_MODE_INLINE,
           user = ''myUser1'', password = ''myHotPassword''\<rparr>"
  let ?b1 = "''{reqIdx:0,error:near SELENCT: syntax error}''"
  let ?w1 = "\<lparr>RequestIdx = 0, Msg = ''near SELENCT: syntax error'', Code = 0\<rparr>"
  let ?E1 = "canned 500 ?b1 (None, ?w1) (Inl ''unused'')"
  let ?r1 = "\<lparr>req = \<lparr>Credentials = None,
                  Transaction = [requestItem_zero\<lparr>Query := ''SELENCT * FROM TEMP''\<rparr>]\<rparr>\<rparr>
             :: int Request"
  let ?p1 = "\<lparr>Ctx = (), Method = ''POST'', URL = ''http://localhost:12321/mydb2'',
              Payload = ''{}'', BasicAuth = None, Header = []\<rparr>"
  let ?c2 = "\<lparr>url = ''http://localhost:12321/nodb'', authMode = AUTH_MODE_HTTP,
           user = ''myUser1'', password = ''myHotPassword''\<rparr>"
  let ?b2 = "''404 page not found''"
  let ?E2 = "canned 404 ?b2 (Some ''invalid character'', WsError_zero) (Inl ''unused'')"
  let ?r2 = "\<lparr>req = \<lparr>Credentials = None,
                  Transaction = [requestItem_zero\<lparr>Query := ''SELECT * FROM TEMP''\<rparr>]\<rparr>\<rparr>
             :: int Request"
  let ?p2 = "\<lparr>Ctx = (), Method = ''POST'', URL = ''http://localhost:12321/nodb'',
              Payload = ''{}'', BasicAuth = None, Header = []\<rparr>"
  let ?c3 = "\<lparr>url = ''http://localhost:12321/mydb'', authMode = AUTH_MODE_NONE,
           user = '''', password = ''''\<rparr>"
  let ?E3 = "(canned 500 '''' (None, WsError_zero) (Inl ''unused''))
             \<lparr>client_Do := (\<lambda>post. Inr \<lparr>StatusCode = 502, Body = Inl ''unexpected EOF''\<rparr>)\<rparr>"
  let ?p3 = "\<lparr>Ctx = (), Method = ''POST'', URL = ''http://localhost:12321/mydb'',
              Payload = ''{}'', BasicAuth = None, Header = []\<rparr>"
  let ?resp1 = "\<lparr>StatusCode = 500, Body = Inr ?b1\<rparr>"
  let ?resp2 = "\<lparr>StatusCode = 404, Body = Inr ?b2\<rparr>"
  let ?resp3 = "\<lparr>StatusCode = 502, Body = Inl ''unexpected EOF''\<rparr>"
  have m1: "json_Marshal ?E1 (req (attachCredentials ?c1 ?r1)) = Inr ''{}''"
    and n1: "http_NewRequestWithContext ?E1 () ''POST'' (url ?c1) ''{}'' = Inr ?p1"
    and d1: "client_Do ?E1
           (let post1 = (if authMode ?c1 = AUTH_MODE_HTTP
                         then ?p1\<lparr>BasicAuth := Some (user ?c1, password ?c1)\<rparr> else ?p1)
            in post1\<lparr>Header := Header post1 @ [(''Content-Type'', ''application/json'')]\<rparr>)
         = Inr ?resp1"
    and s1: "StatusCode ?resp1 \<noteq> 200"
    by (simp_all add: canned_def)
  have m2: "json_Marshal ?E2 (req (attachCredentials ?c2 ?r2)) = Inr ''{}''"
    and n2: "http_NewRequestWithContext ?E2 () ''POST'' (url ?c2) ''{}'' = Inr ?p2"
    and d2: "client_Do ?E2
           (let post1 = (if authMode ?c2 = AUTH_MODE_HTTP
                         then ?p2\<lparr>BasicAuth := Some (user ?c2, password ?c2)\<rparr> else ?p2)
            in post1\<lparr>Header := Header post1 @ [(''Content-Type'', ''application/json'')]\<rparr>)
         = Inr ?resp2"
    and s2: "StatusCode ?resp2 \<noteq> 200"
    by (simp_all add: canned_def)
  have m3: "json_Marshal ?E3 (req (attachCredentials ?c3 ?r2)) = Inr ''{}''"
    and n3: "http_NewRequestWithContext ?E3 () ''POST'' (url ?c3) ''{}'' = Inr ?p3"
    and d3: "client_Do ?E3
           (let post1 = (if authMode ?c3 = AUTH_MODE_HTTP
                         then ?p3\<lparr>BasicAuth := Some (user ?c3, password ?c3)\<rparr> else ?p3)
            in post1\<lparr>Header := Header post1 @ [(''Content-Type'', ''application/json'')]\<rparr>)
         = Inr ?resp3"
    and s3: "StatusCode ?resp3 \<noteq> 200"
    by (simp_all add: canned_def)
  have u1: "json_Unmarshal_WsError ?E1 ?b1 WsError_zero = (None, ?w1)"
    and u2: "json_Unmarshal_WsError ?E2 ?b2 WsError_zero
               = (Some ''invalid character'', WsError_zero)"
    by (simp_all add: canned_def)
  from Send_non_200_WsError_or_read_error [OF m1 n1 d1 s1] u1
  have "fst (SendWithContext ?E1 () ?c1 ?r1) =
          (None, 500, Some (Remote \<lparr>RequestIdx = RequestIdx ?w1, Msg = Msg ?w1, Code = 500\<rparr>))"
    by simp
  moreover from Send_non_200_WsError_or_read_error [OF m2 n2 d2 s2] u2
  have "fst (SendWithContext ?E2 () ?c2 ?r2) =
          (None, 404, Some (Remote \<lparr>RequestIdx = - 1, Msg = ?b2, Code = 404\<rparr>))"
    by simp
  moreover from Send_non_200_WsError_or_read_error [OF m3 n3 d3 s3]
  have "fst (SendWithContext ?E3 () ?c3 ?r2) = (None, 502, Some (Naked ''unexpected EOF''))"
    by simp
  ultimately show ?thesis
    by (simp add: Send_def canned_def)
qed

end
